theory Spec2Isabelle
  imports Main
begin

section \<open>The Windows plugin registrant of WonderNestApp\<close>

text \<open>
  The development covers \<^verbatim>\<open>windows/flutter/generated_plugin_registrant.cc\<close>, whose only
  function is \<^verbatim>\<open>RegisterPlugins\<close>: nine statements of the form
  \<^verbatim>\<open>XRegisterWithRegistrar(registry->GetRegistrarForPlugin("X"));\<close>.

  Everything the function calls is foreign: \<^verbatim>\<open>GetRegistrarForPlugin\<close> is a method of the
  host framework's registry, the nine \<^verbatim>\<open>...RegisterWithRegistrar\<close> functions are exported by
  the plugin libraries. Neither is part of the sources, so both are parameters of the
  embedding: each foreign call is a function on the program state that returns to its
  caller. The type of the registrar handle is declared by the host framework as well and is
  a type parameter \<open>'r\<close>; the type of the program state is the parameter \<open>'s\<close>. The registry
  pointer is taken to designate a live registry object, as the member call requires.
\<close>

subsection \<open>Foreign interface\<close>

text \<open>The nine registration entry points, under the identifiers the source calls them by.\<close>

datatype entry_point =
    AudioplayersWindowsPluginRegisterWithRegistrar
  | ConnectivityPlusWindowsPluginRegisterWithRegistrar
  | FlutterInappwebviewWindowsPluginCApiRegisterWithRegistrar
  | FlutterSecureStorageWindowsPluginRegisterWithRegistrar
  | LocalAuthPluginRegisterWithRegistrar
  | PermissionHandlerWindowsPluginRegisterWithRegistrar
  | RecordWindowsPluginCApiRegisterWithRegistrar
  | SpeechToTextWindowsRegisterWithRegistrar
  | UrlLauncherWindowsRegisterWithRegistrar

text \<open>
  The registry object: its one method used here takes a plugin name and returns a
  registrar handle; the host may change its state while doing so.
\<close>

record ('s, 'r) PluginRegistry =
  GetRegistrarForPlugin :: "string \<Rightarrow> 's \<Rightarrow> 'r \<times> 's"

text \<open>The plugin libraries the executable is linked against: what each entry point does.\<close>

type_synonym ('s, 'r) plugin_library = "entry_point \<Rightarrow> 'r \<Rightarrow> 's \<Rightarrow> 's"

subsection \<open>Call traces\<close>

text \<open>
  A run is observed through the foreign calls it makes. A request records the name asked
  for and the handle the registry returned, a registration records the entry point called
  and the handle passed to it.
\<close>

datatype 'r call =
    RegistrarRequest string 'r
  | Registration entry_point 'r

type_synonym ('s, 'r) run = "'s \<times> 'r call list"

definition get_registrar ::
  "('s, 'r) PluginRegistry \<Rightarrow> string \<Rightarrow> ('s, 'r) run \<Rightarrow> 'r \<times> ('s, 'r) run" where
  "get_registrar registry name = (\<lambda>(s, tr).
     let (r, s') = GetRegistrarForPlugin registry name s
     in (r, (s', tr @ [RegistrarRequest name r])))"

definition register_with ::
  "('s, 'r) plugin_library \<Rightarrow> entry_point \<Rightarrow> 'r \<Rightarrow> ('s, 'r) run \<Rightarrow> ('s, 'r) run" where
  "register_with linked e r = (\<lambda>(s, tr). (linked e r s, tr @ [Registration e r]))"

subsection \<open>RegisterPlugins\<close>

text \<open>
  One pair of bindings per statement of the source: the argument expression
  \<^verbatim>\<open>registry->GetRegistrarForPlugin("X")\<close> is evaluated first, then the entry point is
  called with its value. The function returns \<^verbatim>\<open>void\<close>: the result is the run alone.
\<close>

definition RegisterPlugins ::
  "('s, 'r) plugin_library \<Rightarrow> ('s, 'r) PluginRegistry \<Rightarrow> ('s, 'r) run \<Rightarrow> ('s, 'r) run" where
  "RegisterPlugins linked registry \<sigma>0 =
    (let (r1, \<sigma>1) = get_registrar registry ''AudioplayersWindowsPlugin'' \<sigma>0;
         \<sigma>2 = register_with linked AudioplayersWindowsPluginRegisterWithRegistrar r1 \<sigma>1;
         (r2, \<sigma>3) = get_registrar registry ''ConnectivityPlusWindowsPlugin'' \<sigma>2;
         \<sigma>4 = register_with linked ConnectivityPlusWindowsPluginRegisterWithRegistrar r2 \<sigma>3;
         (r3, \<sigma>5) = get_registrar registry ''FlutterInappwebviewWindowsPluginCApi'' \<sigma>4;
         \<sigma>6 = register_with linked FlutterInappwebviewWindowsPluginCApiRegisterWithRegistrar r3 \<sigma>5;
         (r4, \<sigma>7) = get_registrar registry ''FlutterSecureStorageWindowsPlugin'' \<sigma>6;
         \<sigma>8 = register_with linked FlutterSecureStorageWindowsPluginRegisterWithRegistrar r4 \<sigma>7;
         (r5, \<sigma>9) = get_registrar registry ''LocalAuthPlugin'' \<sigma>8;
         \<sigma>10 = register_with linked LocalAuthPluginRegisterWithRegistrar r5 \<sigma>9;
         (r6, \<sigma>11) = get_registrar registry ''PermissionHandlerWindowsPlugin'' \<sigma>10;
         \<sigma>12 = register_with linked PermissionHandlerWindowsPluginRegisterWithRegistrar r6 \<sigma>11;
         (r7, \<sigma>13) = get_registrar registry ''RecordWindowsPluginCApi'' \<sigma>12;
         \<sigma>14 = register_with linked RecordWindowsPluginCApiRegisterWithRegistrar r7 \<sigma>13;
         (r8, \<sigma>15) = get_registrar registry ''SpeechToTextWindows'' \<sigma>14;
         \<sigma>16 = register_with linked SpeechToTextWindowsRegisterWithRegistrar r8 \<sigma>15;
         (r9, \<sigma>17) = get_registrar registry ''UrlLauncherWindows'' \<sigma>16;
         \<sigma>18 = register_with linked UrlLauncherWindowsRegisterWithRegistrar r9 \<sigma>17
     in \<sigma>18)"

text \<open>The calls of one invocation, and the program state it leaves.\<close>

definition calls_of ::
  "('s, 'r) plugin_library \<Rightarrow> ('s, 'r) PluginRegistry \<Rightarrow> 's \<Rightarrow> 'r call list" where
  "calls_of linked registry s = snd (RegisterPlugins linked registry (s, []))"

definition state_after ::
  "('s, 'r) plugin_library \<Rightarrow> ('s, 'r) PluginRegistry \<Rightarrow> 's \<Rightarrow> 's" where
  "state_after linked registry s = fst (RegisterPlugins linked registry (s, []))"

text \<open>The requests and the registrations of a trace, in the order they were made.\<close>

fun requests :: "'r call list \<Rightarrow> (string \<times> 'r) list" where
  "requests [] = []"
| "requests (RegistrarRequest n r # tr) = (n, r) # requests tr"
| "requests (Registration e r # tr) = requests tr"

fun registrations :: "'r call list \<Rightarrow> (entry_point \<times> 'r) list" where
  "registrations [] = []"
| "registrations (RegistrarRequest n r # tr) = registrations tr"
| "registrations (Registration e r # tr) = (e, r) # registrations tr"

text \<open>The handles returned under one name, and the handles passed to one entry point.\<close>

definition registrars_returned :: "string \<Rightarrow> 'r call list \<Rightarrow> 'r list" where
  "registrars_returned name tr = map snd (filter (\<lambda>(n, r). n = name) (requests tr))"

definition registrars_passed :: "entry_point \<Rightarrow> 'r call list \<Rightarrow> 'r list" where
  "registrars_passed e tr = map snd (filter (\<lambda>(e', r). e' = e) (registrations tr))"

subsection \<open>Plugin names\<close>

text \<open>
  The identifier of each entry point, as the source spells it. The plugin libraries follow
  the host framework's naming scheme: the entry point of a plugin class \<open>C\<close> is called
  \<open>CRegisterWithRegistrar\<close>, so the class name is the identifier without that suffix.
\<close>

fun entry_point_name :: "entry_point \<Rightarrow> string" where
  "entry_point_name AudioplayersWindowsPluginRegisterWithRegistrar =
     ''AudioplayersWindowsPluginRegisterWithRegistrar''"
| "entry_point_name ConnectivityPlusWindowsPluginRegisterWithRegistrar =
     ''ConnectivityPlusWindowsPluginRegisterWithRegistrar''"
| "entry_point_name FlutterInappwebviewWindowsPluginCApiRegisterWithRegistrar =
     ''FlutterInappwebviewWindowsPluginCApiRegisterWithRegistrar''"
| "entry_point_name FlutterSecureStorageWindowsPluginRegisterWithRegistrar =
     ''FlutterSecureStorageWindowsPluginRegisterWithRegistrar''"
| "entry_point_name LocalAuthPluginRegisterWithRegistrar =
     ''LocalAuthPluginRegisterWithRegistrar''"
| "entry_point_name PermissionHandlerWindowsPluginRegisterWithRegistrar =
     ''PermissionHandlerWindowsPluginRegisterWithRegistrar''"
| "entry_point_name RecordWindowsPluginCApiRegisterWithRegistrar =
     ''RecordWindowsPluginCApiRegisterWithRegistrar''"
| "entry_point_name SpeechToTextWindowsRegisterWithRegistrar =
     ''SpeechToTextWindowsRegisterWithRegistrar''"
| "entry_point_name UrlLauncherWindowsRegisterWithRegistrar =
     ''UrlLauncherWindowsRegisterWithRegistrar''"

definition plugin_class :: "entry_point \<Rightarrow> string" where
  "plugin_class e =
     take (length (entry_point_name e) - length ''RegisterWithRegistrar'') (entry_point_name e)"

subsection \<open>Statements and the statement list\<close>

text \<open>
  One statement of the source on its own: a request under \<open>name\<close>, whose result goes to
  the entry point \<open>e\<close> and nowhere else. The list below gives, for each statement of
  \<^verbatim>\<open>RegisterPlugins\<close> in source order, the string literal and the function it calls.
\<close>

definition register_one ::
  "('s, 'r) plugin_library \<Rightarrow> ('s, 'r) PluginRegistry \<Rightarrow> string \<times> entry_point \<Rightarrow>
     ('s, 'r) run \<Rightarrow> ('s, 'r) run" where
  "register_one linked registry = (\<lambda>(name, e) \<sigma>.
     let (r, \<sigma>') = get_registrar registry name \<sigma> in register_with linked e r \<sigma>')"

definition registered_plugins :: "(string \<times> entry_point) list" where
  "registered_plugins =
    [(''AudioplayersWindowsPlugin'', AudioplayersWindowsPluginRegisterWithRegistrar),
     (''ConnectivityPlusWindowsPlugin'', ConnectivityPlusWindowsPluginRegisterWithRegistrar),
     (''FlutterInappwebviewWindowsPluginCApi'',
        FlutterInappwebviewWindowsPluginCApiRegisterWithRegistrar),
     (''FlutterSecureStorageWindowsPlugin'',
        FlutterSecureStorageWindowsPluginRegisterWithRegistrar),
     (''LocalAuthPlugin'', LocalAuthPluginRegisterWithRegistrar),
     (''PermissionHandlerWindowsPlugin'', PermissionHandlerWindowsPluginRegisterWithRegistrar),
     (''RecordWindowsPluginCApi'', RecordWindowsPluginCApiRegisterWithRegistrar),
     (''SpeechToTextWindows'', SpeechToTextWindowsRegisterWithRegistrar),
     (''UrlLauncherWindows'', UrlLauncherWindowsRegisterWithRegistrar)]"


text \<open>
  The request and the registration of one statement stand next to each other in the
  trace; \<open>pairings\<close> reads off which name was asked for just before which entry point
  was called.
\<close>

fun pairings :: "'r call list \<Rightarrow> (string \<times> entry_point) list" where
  "pairings (RegistrarRequest n r # Registration e r' # tr) = (n, e) # pairings tr"
| "pairings (c # tr) = pairings tr"
| "pairings [] = []"

subsection \<open>Handles in flight\<close>

text \<open>
  The handles obtained and not yet passed on, after a trace: a request adds the handle it
  returned, a registration takes the handle it was given away.
\<close>

fun unconsumed :: "'r list \<Rightarrow> 'r call list \<Rightarrow> 'r list" where
  "unconsumed held [] = held"
| "unconsumed held (RegistrarRequest n r # tr) = unconsumed (held @ [r]) tr"
| "unconsumed held (Registration e r # tr) = unconsumed (remove1 r held) tr"

text \<open>
  The discipline of one handle at a time, as a check that walks the trace: a request is
  made only while no handle is held, a registration passes on exactly the handle held, and
  nothing is held at the end.
\<close>

fun one_at_a_time :: "'r option \<Rightarrow> 'r call list \<Rightarrow> bool" where
  "one_at_a_time held [] = (held = None)"
| "one_at_a_time held (RegistrarRequest n r # tr) = (held = None \<and> one_at_a_time (Some r) tr)"
| "one_at_a_time held (Registration e r # tr) = (held = Some r \<and> one_at_a_time None tr)"

subsection \<open>Effects on the program state\<close>

text \<open>The state reached from \<open>s\<close> by making the recorded foreign calls, and nothing else.\<close>

fun replay ::
  "('s, 'r) plugin_library \<Rightarrow> ('s, 'r) PluginRegistry \<Rightarrow> 'r call list \<Rightarrow> 's \<Rightarrow> 's" where
  "replay linked registry [] s = s"
| "replay linked registry (RegistrarRequest n r # tr) s =
     replay linked registry tr (snd (GetRegistrarForPlugin registry n s))"
| "replay linked registry (Registration e r # tr) s = replay linked registry tr (linked e r s)"

text \<open>
  A trace is faithful to a registry from \<open>s\<close> when every handle it records for a request
  is the handle that the registry returns, in the state the calls before it have led to.
\<close>

fun faithful ::
  "('s, 'r) plugin_library \<Rightarrow> ('s, 'r) PluginRegistry \<Rightarrow> 'r call list \<Rightarrow> 's \<Rightarrow> bool" where
  "faithful linked registry [] s = True"
| "faithful linked registry (RegistrarRequest n r # tr) s =
     (r = fst (GetRegistrarForPlugin registry n s) \<and>
      faithful linked registry tr (snd (GetRegistrarForPlugin registry n s)))"
| "faithful linked registry (Registration e r # tr) s = faithful linked registry tr (linked e r s)"

text \<open>
  The program state, split into the plugin table that the registry keeps and everything
  else.
\<close>

record ('t, 'o) program_state =
  registry_plugin_table :: 't
  other_state :: 'o

subsection \<open>The spec's enumeration\<close>




subsection \<open>Sample hosts\<close>

text \<open>
  Modelled from the spec: the handle type \<^verbatim>\<open>FlutterDesktopPluginRegistrarRef\<close> is declared
  in the host framework's headers, which are not among the sources. The spec speaks of
  null and non-null registrars: a handle is the null pointer or refers to a registrar
  object, here by its index in the registry's table.
\<close>

datatype registrar_ref = nullptr | Registrar nat

text \<open>
  A registry that has no registrar to give and answers every request with the null
  pointer, and plugin libraries whose entry points do nothing.
\<close>

definition null_registry :: "(unit, registrar_ref) PluginRegistry" where
  "null_registry = \<lparr>GetRegistrarForPlugin = (\<lambda>name s. (nullptr, s))\<rparr>"

definition idle_plugins :: "(unit, registrar_ref) plugin_library" where
  "idle_plugins = (\<lambda>e r s. s)"

text \<open>
  A registry that keeps a table of plugin names, each with a flag that says whether the
  plugin has registered: a request enters the name and returns a handle to the new row;
  an entry point sets the flag of the row its handle refers to.
\<close>

type_synonym sample_state = "((string \<times> bool) list, nat) program_state"

definition sample_registry :: "(sample_state, registrar_ref) PluginRegistry" where
  "sample_registry = \<lparr>GetRegistrarForPlugin = (\<lambda>name s.
     (Registrar (length (registry_plugin_table s)),
      s\<lparr>registry_plugin_table := registry_plugin_table s @ [(name, False)]\<rparr>))\<rparr>"

fun sample_plugins :: "(sample_state, registrar_ref) plugin_library" where
  "sample_plugins e nullptr s = s"
| "sample_plugins e (Registrar i) s =
     (if i < length (registry_plugin_table s)
      then s\<lparr>registry_plugin_table :=
             (registry_plugin_table s)[i := (fst (registry_plugin_table s ! i), True)]\<rparr>
      else s)"

definition sample_start :: sample_state where
  "sample_start = \<lparr>registry_plugin_table = [], other_state = 7\<rparr>"




subsection \<open>The shape of every run\<close>

lemma RegisterPlugins_run:
  "\<exists>r1 r2 r3 r4 r5 r6 r7 r8 r9 s'.
     RegisterPlugins linked registry (s, tr) =
       (s', tr @
         [RegistrarRequest ''AudioplayersWindowsPlugin'' r1,
          Registration AudioplayersWindowsPluginRegisterWithRegistrar r1,
          RegistrarRequest ''ConnectivityPlusWindowsPlugin'' r2,
          Registration ConnectivityPlusWindowsPluginRegisterWithRegistrar r2,
          RegistrarRequest ''FlutterInappwebviewWindowsPluginCApi'' r3,
          Registration FlutterInappwebviewWindowsPluginCApiRegisterWithRegistrar r3,
          RegistrarRequest ''FlutterSecureStorageWindowsPlugin'' r4,
          Registration FlutterSecureStorageWindowsPluginRegisterWithRegistrar r4,
          RegistrarRequest ''LocalAuthPlugin'' r5,
          Registration LocalAuthPluginRegisterWithRegistrar r5,
          RegistrarRequest ''PermissionHandlerWindowsPlugin'' r6,
          Registration PermissionHandlerWindowsPluginRegisterWithRegistrar r6,
          RegistrarRequest ''RecordWindowsPluginCApi'' r7,
          Registration RecordWindowsPluginCApiRegisterWithRegistrar r7,
          RegistrarRequest ''SpeechToTextWindows'' r8,
          Registration SpeechToTextWindowsRegisterWithRegistrar r8,
          RegistrarRequest ''UrlLauncherWindows'' r9,
          Registration UrlLauncherWindowsRegisterWithRegistrar r9])"
  by (simp add: RegisterPlugins_def get_registrar_def register_with_def split: prod.splits)

text \<open>The same for a call that starts with an empty trace, as a case rule.\<close>

lemma calls_of_cases:
  obtains r1 r2 r3 r4 r5 r6 r7 r8 r9 where
     "calls_of linked registry s =
         [RegistrarRequest ''AudioplayersWindowsPlugin'' r1,
          Registration AudioplayersWindowsPluginRegisterWithRegistrar r1,
          RegistrarRequest ''ConnectivityPlusWindowsPlugin'' r2,
          Registration ConnectivityPlusWindowsPluginRegisterWithRegistrar r2,
          RegistrarRequest ''FlutterInappwebviewWindowsPluginCApi'' r3,
          Registration FlutterInappwebviewWindowsPluginCApiRegisterWithRegistrar r3,
          RegistrarRequest ''FlutterSecureStorageWindowsPlugin'' r4,
          Registration FlutterSecureStorageWindowsPluginRegisterWithRegistrar r4,
          RegistrarRequest ''LocalAuthPlugin'' r5,
          Registration LocalAuthPluginRegisterWithRegistrar r5,
          RegistrarRequest ''PermissionHandlerWindowsPlugin'' r6,
          Registration PermissionHandlerWindowsPluginRegisterWithRegistrar r6,
          RegistrarRequest ''RecordWindowsPluginCApi'' r7,
          Registration RecordWindowsPluginCApiRegisterWithRegistrar r7,
          RegistrarRequest ''SpeechToTextWindows'' r8,
          Registration SpeechToTextWindowsRegisterWithRegistrar r8,
          RegistrarRequest ''UrlLauncherWindows'' r9,
          Registration UrlLauncherWindowsRegisterWithRegistrar r9]"
  using RegisterPlugins_run [of linked registry s "[]"]
  by (elim exE) (rule that, simp add: calls_of_def)

lemma plugin_class_simps:
  "plugin_class AudioplayersWindowsPluginRegisterWithRegistrar = ''AudioplayersWindowsPlugin''"
  "plugin_class ConnectivityPlusWindowsPluginRegisterWithRegistrar =
     ''ConnectivityPlusWindowsPlugin''"
  "plugin_class FlutterInappwebviewWindowsPluginCApiRegisterWithRegistrar =
     ''FlutterInappwebviewWindowsPluginCApi''"
  "plugin_class FlutterSecureStorageWindowsPluginRegisterWithRegistrar =
     ''FlutterSecureStorageWindowsPlugin''"
  "plugin_class LocalAuthPluginRegisterWithRegistrar = ''LocalAuthPlugin''"
  "plugin_class PermissionHandlerWindowsPluginRegisterWithRegistrar =
     ''PermissionHandlerWindowsPlugin''"
  "plugin_class RecordWindowsPluginCApiRegisterWithRegistrar = ''RecordWindowsPluginCApi''"
  "plugin_class SpeechToTextWindowsRegisterWithRegistrar = ''SpeechToTextWindows''"
  "plugin_class UrlLauncherWindowsRegisterWithRegistrar = ''UrlLauncherWindows''"
  by (simp_all add: plugin_class_def)

text \<open>
  The function is its nine statements run one after another: a fold of the single
  statement over the statement list.
\<close>

lemma RegisterPlugins_fold:
  "RegisterPlugins linked registry \<sigma> =
     fold (register_one linked registry) registered_plugins \<sigma>"
  by (simp add: RegisterPlugins_def register_one_def registered_plugins_def split: prod.splits)

subsection \<open>The trace against the host\<close>

lemma replay_append:
  "replay linked registry (tr @ tr') s =
     replay linked registry tr' (replay linked registry tr s)"
  by (induction linked registry tr s rule: replay.induct) simp_all

lemma faithful_append:
  "faithful linked registry (tr @ tr') s =
     (faithful linked registry tr s \<and>
      faithful linked registry tr' (replay linked registry tr s))"
  by (induction linked registry tr s rule: replay.induct) simp_all

lemma register_one_faithful:
  "\<exists>new. register_one linked registry ne (s, tr) = (replay linked registry new s, tr @ new) \<and>
         faithful linked registry new s"
proof (cases ne)
  case (Pair name e)
  obtain r s' where g: "GetRegistrarForPlugin registry name s = (r, s')"
    by (cases "GetRegistrarForPlugin registry name s")
  have "register_one linked registry ne (s, tr) =
      (replay linked registry [RegistrarRequest name r, Registration e r] s,
       tr @ [RegistrarRequest name r, Registration e r]) \<and>
      faithful linked registry [RegistrarRequest name r, Registration e r] s"
    by (simp add: Pair register_one_def get_registrar_def register_with_def g)
  then show ?thesis by blast
qed

lemma fold_register_one_faithful:
  "\<exists>new. fold (register_one linked registry) tbl (s, tr) =
            (replay linked registry new s, tr @ new) \<and>
         faithful linked registry new s"
proof (induction tbl arbitrary: s tr)
  case Nil
  have "fold (register_one linked registry) [] (s, tr) =
      (replay linked registry [] s, tr @ []) \<and> faithful linked registry [] s"
    by simp
  then show ?case by blast
next
  case (Cons ne tbl)
  obtain new where 1:
      "register_one linked registry ne (s, tr) = (replay linked registry new s, tr @ new)"
    and f1: "faithful linked registry new s"
    using register_one_faithful [of linked registry ne s tr] by blast
  obtain new' where 2:
      "fold (register_one linked registry) tbl (replay linked registry new s, tr @ new) =
        (replay linked registry new' (replay linked registry new s), (tr @ new) @ new')"
    and f2: "faithful linked registry new' (replay linked registry new s)"
    using Cons.IH [of "replay linked registry new s" "tr @ new"] by blast
  have "fold (register_one linked registry) (ne # tbl) (s, tr) =
      (replay linked registry (new @ new') s, tr @ (new @ new')) \<and>
      faithful linked registry (new @ new') s"
    by (simp add: 1 2 f1 f2 replay_append faithful_append)
  then show ?case by blast
qed

lemma RegisterPlugins_replay_faithful:
  "state_after linked registry s = replay linked registry (calls_of linked registry s) s \<and>
   faithful linked registry (calls_of linked registry s) s"
proof -
  obtain new where
      "RegisterPlugins linked registry (s, []) = (replay linked registry new s, [] @ new)"
    and "faithful linked registry new s"
    using fold_register_one_faithful [of linked registry registered_plugins s "[]"]
    by (auto simp: RegisterPlugins_fold)
  then show ?thesis by (simp add: state_after_def calls_of_def)
qed


lemma calls_of_faithful: "faithful linked registry (calls_of linked registry s) s"
  by (simp add: RegisterPlugins_replay_faithful)

lemma faithful_answered:
  "faithful linked registry tr s \<Longrightarrow> (n, r) \<in> set (requests tr) \<Longrightarrow>
     \<exists>s'. r = fst (GetRegistrarForPlugin registry n s')"
proof (induction tr arbitrary: s)
  case Nil
  then show ?case by simp
next
  case (Cons c tr)
  then show ?case by (cases c) auto
qed

lemma registrars_returned_answered:
  assumes "registrars_returned n (calls_of linked registry s) = [r]"
  shows "\<exists>s'. r = fst (GetRegistrarForPlugin registry n s')"
proof -
  have "r \<in> set (registrars_returned n (calls_of linked registry s))"
    by (simp add: assms)
  then have "(n, r) \<in> set (requests (calls_of linked registry s))"
    by (auto simp: registrars_returned_def)
  then show ?thesis
    by (rule faithful_answered [OF calls_of_faithful])
qed



subsection \<open>Renaming handles\<close>



subsection \<open>One handle at a time\<close>

lemma one_at_a_time_prefix:
  "one_at_a_time held tr \<Longrightarrow>
     length (unconsumed (case held of None \<Rightarrow> [] | Some r \<Rightarrow> [r]) (take k tr)) \<le> 1"
proof (induction held tr arbitrary: k rule: one_at_a_time.induct)
  case (1 held)
  then show ?case by simp
next
  case (2 held n r tr)
  then show ?case by (cases k) auto
next
  case (3 held e r tr)
  then show ?case by (cases k) auto
qed

subsection \<open>A run against the sample host\<close>

text \<open>After the call the sample registry's table holds the nine names, all registered.\<close>

lemma sample_run:
  "registry_plugin_table (state_after sample_plugins sample_registry sample_start) =
     map (\<lambda>(name, e). (name, True)) registered_plugins"
  by (simp add: state_after_def RegisterPlugins_def get_registrar_def register_with_def
      sample_registry_def sample_start_def registered_plugins_def)

section \<open>The claims\<close>

text \<open>
  Throughout, \<open>linked\<close> stands for the plugin libraries, \<open>registry\<close> for the registry
  passed in and \<open>s\<close> for the program state at the call; all three are arbitrary.
\<close>

text \<open>
  C1, as amended. For every registry, each of the nine entry points receives exactly one
  registration call, and the handle passed to it is the one handle that was requested
  under the plugin's own class name: a value that the registry's
  \<^verbatim>\<open>GetRegistrarForPlugin\<close> returned for that name, passed on as it came. The handle is
  therefore non-null when the registry returned a non-null one and null when it returned
  null; the function makes no check of its own.
\<close>

theorem RegisterPlugins_registers_each_once:
  "\<exists>r s'. registrars_passed e (calls_of linked registry s) = [r] \<and>
       registrars_returned (plugin_class e) (calls_of linked registry s) = [r] \<and>
       r = fst (GetRegistrarForPlugin registry (plugin_class e) s')"
proof -
  have "\<exists>r. registrars_passed e (calls_of linked registry s) = [r] \<and>
       registrars_returned (plugin_class e) (calls_of linked registry s) = [r]"
    by (rule calls_of_cases [of linked registry s], cases e)
       (simp_all add: registrars_passed_def registrars_returned_def plugin_class_simps)
  then obtain r where 1: "registrars_passed e (calls_of linked registry s) = [r]"
    and 2: "registrars_returned (plugin_class e) (calls_of linked registry s) = [r]"
    by blast
  obtain s' where "r = fst (GetRegistrarForPlugin registry (plugin_class e) s')"
    using registrars_returned_answered [OF 2] by blast
  with 1 2 show ?thesis by blast
qed

text \<open>
  C1 as stated also asks that the handle passed be non-null, for every registry. It is
  not: called with the registry that answers every request with the null pointer,
  \<^verbatim>\<open>RegisterPlugins\<close> requests a registrar under \<^verbatim>\<open>"AudioplayersWindowsPlugin"\<close>, gets the
  null pointer, and calls \<^verbatim>\<open>AudioplayersWindowsPluginRegisterWithRegistrar\<close> with it.
\<close>

theorem RegisterPlugins_null_registrar_forwarded:
  "registrars_returned ''AudioplayersWindowsPlugin'' (calls_of idle_plugins null_registry ()) =
     [nullptr] \<and>
   registrars_passed AudioplayersWindowsPluginRegisterWithRegistrar
     (calls_of idle_plugins null_registry ()) = [nullptr]"
  by (simp add: registrars_passed_def registrars_returned_def calls_of_def RegisterPlugins_def
      get_registrar_def register_with_def null_registry_def idle_plugins_def)









text \<open>
  C7. In each of the nine statements the string passed to \<^verbatim>\<open>GetRegistrarForPlugin\<close> is
  the class name of the plugin whose entry point is then called: the string followed by
  \<^verbatim>\<open>RegisterWithRegistrar\<close> is the identifier of that entry point.
\<close>

theorem RegisterPlugins_name_matches_entry_point:
  "length (pairings (calls_of linked registry s)) = 9 \<and>
   list_all (\<lambda>(name, e). name @ ''RegisterWithRegistrar'' = entry_point_name e \<and>
                         name = plugin_class e)
     (pairings (calls_of linked registry s))"
  by (rule calls_of_cases [of linked registry s]) (simp add: plugin_class_simps)

text \<open>
  C8. The nine names passed to \<^verbatim>\<open>GetRegistrarForPlugin\<close> are pairwise distinct, and so
  are the nine entry points called: within one call no name is requested twice and no
  plugin is registered twice.
\<close>

theorem RegisterPlugins_names_distinct:
  "length (requests (calls_of linked registry s)) = 9 \<and>
   distinct (map fst (requests (calls_of linked registry s))) \<and>
   distinct (map fst (registrations (calls_of linked registry s)))"
  by (rule calls_of_cases [of linked registry s]) simp


text \<open>
  C10. \<^verbatim>\<open>RegisterPlugins\<close> never holds more than one handle: in its trace every request
  is made while no handle is held, every registration passes on the handle just obtained,
  and nothing is held at the end; after any number of calls at most one handle is
  obtained and not yet passed on.
\<close>

theorem RegisterPlugins_one_registrar_at_a_time:
  "one_at_a_time None (calls_of linked registry s) \<and>
   (\<forall>k. length (unconsumed [] (take k (calls_of linked registry s))) \<le> 1)"
proof -
  have a: "one_at_a_time None (calls_of linked registry s)"
    by (rule calls_of_cases [of linked registry s]) simp
  from one_at_a_time_prefix [OF a] show ?thesis using a by simp
qed

end
